theory Spec2Isabelle
  imports Main "HOL-Library.Word"
begin

section \<open>The library interfaces used by \<open>main.go\<close>\<close>

subsection \<open>Package \<open>time\<close>\<close>

text \<open>
  A \<open>time.Time\<close> is an instant; it is modelled by the number of nanoseconds that
  separate it from Go's zero time (January 1, year 1, 00:00:00 UTC), so that the zero
  value \<open>time.Time{}\<close> is \<open>0\<close>. \<open>Truncate\<close> rounds down to a multiple of the
  duration counted from the zero time and leaves the instant alone when the duration is
  not positive; \<open>After\<close> compares instants.
\<close>

type_synonym time = int

definition zero_time :: time where
  "zero_time = 0"

definition IsZero :: "time \<Rightarrow> bool" where
  "IsZero t \<longleftrightarrow> t = zero_time"

definition Second :: int where
  "Second = 1000000000"

definition Truncate :: "time \<Rightarrow> int \<Rightarrow> time" where
  "Truncate t d = (if d \<le> 0 then t else t - t mod d)"

definition After :: "time \<Rightarrow> time \<Rightarrow> bool" where
  "After t u \<longleftrightarrow> u < t"

subsection \<open>Packages \<open>strings\<close>, \<open>strconv\<close> and \<open>fmt\<close>\<close>

text \<open>
  \<open>strings.Split(s, sep)\<close> for a separator of one byte, which is how both call sites
  use it: the pieces of \<open>s\<close> between the separators, always at least one piece.
\<close>

fun strings_Split :: "string \<Rightarrow> char \<Rightarrow> string list" where
  "strings_Split [] sep = [[]]"
| "strings_Split (c # cs) sep =
     (if c = sep then [] # strings_Split cs sep
      else (case strings_Split cs sep of
              [] \<Rightarrow> [[c]]
            | p # ps \<Rightarrow> (c # p) # ps))"

fun strings_HasPrefix :: "string \<Rightarrow> string \<Rightarrow> bool" where
  "strings_HasPrefix s [] = True"
| "strings_HasPrefix [] (p # ps) = False"
| "strings_HasPrefix (c # cs) (p # ps) = (c = p \<and> strings_HasPrefix cs ps)"

fun strings_Contains :: "string \<Rightarrow> string \<Rightarrow> bool" where
  "strings_Contains [] sub = (sub = [])"
| "strings_Contains (c # cs) sub =
     (strings_HasPrefix (c # cs) sub \<or> strings_Contains cs sub)"

definition digit_char :: "nat \<Rightarrow> char" where
  "digit_char n = ''0123456789abcdef'' ! n"

fun digits :: "nat \<Rightarrow> nat \<Rightarrow> string" where
  "digits b n =
     (if b < 2 \<or> n < b then [digit_char n]
      else digits b (n div b) @ [digit_char (n mod b)])"

declare digits.simps [simp del]

text \<open>\<open>strconv.FormatInt(v, 10)\<close>.\<close>

definition FormatInt :: "int \<Rightarrow> string" where
  "FormatInt v = (if v < 0 then CHR ''-'' # digits 10 (nat (- v)) else digits 10 (nat v))"

text \<open>
  A \<open>*string\<close> as \<open>flag.String\<close> returns it: the address of the variable and the
  string stored there. The verb \<open>%v\<close> applied to such a pointer prints the address in
  hexadecimal, not the string behind it.
\<close>

record string_ptr =
  addr :: nat
  deref :: string

definition fmt_v_ptr :: "string_ptr \<Rightarrow> string" where
  "fmt_v_ptr p = (if addr p = 0 then ''<nil>'' else ''0x'' @ digits 16 (addr p))"

subsection \<open>Package \<open>storage\<close>\<close>

text \<open>
  Errors are compared by identity in \<open>handleError\<close>: \<open>ErrObjectNotExist\<close> is the
  package's distinguished value, every other error carries its text.
\<close>

datatype error = ErrObjectNotExist | OtherError string

fun Error_text :: "error \<Rightarrow> string" where
  "Error_text ErrObjectNotExist =
     ''storage: object doesn'' @ [CHR 0x27] @ ''t exist''"
| "Error_text (OtherError msg) = msg"

text \<open>
  The fields of \<open>storage.ObjectAttrs\<close> that the handler reads, and the object's own
  \<open>ContentEncoding\<close> and \<open>Size\<close> (here \<open>attr_ContentEncoding\<close> and \<open>attr_Size\<close>),
  which it does not read. \<open>Metadata\<close> is a Go map; it is kept as the list of its entries
  in the order in which \<open>range\<close> visits them, and a lookup of a missing key gives the
  empty string.
\<close>

record ObjectAttrs =
  Name :: string
  ContentType :: string
  ContentLanguage :: string
  CacheControl :: string
  ContentDisposition :: string
  attr_ContentEncoding :: string
  attr_Size :: "64 word"
  Updated :: time
  Metadata :: "(string \<times> string) list"

definition index_str :: "(string \<times> string) list \<Rightarrow> string \<Rightarrow> string" where
  "index_str m k = (case map_of m k of None \<Rightarrow> [] | Some v \<Rightarrow> v)"

record ReaderObjectAttrs =
  Size :: "64 word"
  ContentEncoding :: string

record Reader =
  Attrs :: ReaderObjectAttrs
  content :: string

text \<open>
  The object handle \<open>client.Bucket(b).Object(o).ReadCompressed(gzip)\<close> with its two
  calls, each of which fails or returns a value.
\<close>

record Client =
  obj_Attrs :: "string \<Rightarrow> string \<Rightarrow> bool \<Rightarrow> error + ObjectAttrs"
  obj_NewReader :: "string \<Rightarrow> string \<Rightarrow> bool \<Rightarrow> error + Reader"

subsection \<open>Package \<open>net/http\<close>\<close>

text \<open>
  \<open>http.ParseTime\<close> and the rendering of a time in \<open>http.TimeFormat\<close> are taken as
  parameters. When \<open>ParseTime\<close> fails it returns the zero time together with the error.
\<close>

record Lib =
  ParseTime :: "string \<Rightarrow> string + time"
  FormatHTTPTime :: "time \<Rightarrow> string"

text \<open>
  A request: its header map and the path variables that the router extracted. Indexing
  a Go map with a missing key gives the zero value.
\<close>

record Request =
  Header :: "string \<rightharpoonup> string list"
  Vars :: "string \<rightharpoonup> string"

definition Header_Get :: "(string \<rightharpoonup> string list) \<Rightarrow> string \<Rightarrow> string" where
  "Header_Get h key = (case h key of None \<Rightarrow> [] | Some [] \<Rightarrow> [] | Some (v # vs) \<Rightarrow> v)"

definition index_var :: "(string \<rightharpoonup> string) \<Rightarrow> string \<Rightarrow> string" where
  "index_var m k = (case m k of None \<Rightarrow> [] | Some v \<Rightarrow> v)"

text \<open>
  What the handler does to the outside: the status it wrote (if any), the header lines
  it added, in order, under the names it passed to \<open>Add\<close>, the bytes it wrote to the
  body, and the lines it logged.
\<close>

record ResponseWriter =
  rw_status :: "nat option"
  rw_header :: "(string \<times> string) list"
  rw_body :: string
  log_lines :: "string list"

definition new_writer :: ResponseWriter where
  "new_writer = \<lparr>rw_status = None, rw_header = [], rw_body = [], log_lines = []\<rparr>"

definition Header_Add :: "string \<Rightarrow> string \<Rightarrow> ResponseWriter \<Rightarrow> ResponseWriter" where
  "Header_Add key v w = w\<lparr>rw_header := rw_header w @ [(key, v)]\<rparr>"

definition Header_Del :: "string \<Rightarrow> ResponseWriter \<Rightarrow> ResponseWriter" where
  "Header_Del key w = w\<lparr>rw_header := filter (\<lambda>kv. fst kv \<noteq> key) (rw_header w)\<rparr>"

definition Header_Set :: "string \<Rightarrow> string \<Rightarrow> ResponseWriter \<Rightarrow> ResponseWriter" where
  "Header_Set key v w = Header_Add key v (Header_Del key w)"

text \<open>Only the first \<open>WriteHeader\<close> counts; a write to the body implies status 200.\<close>

definition WriteHeader :: "nat \<Rightarrow> ResponseWriter \<Rightarrow> ResponseWriter" where
  "WriteHeader code w =
     (case rw_status w of None \<Rightarrow> w\<lparr>rw_status := Some code\<rparr> | Some c \<Rightarrow> w)"

definition Write :: "string \<Rightarrow> ResponseWriter \<Rightarrow> ResponseWriter" where
  "Write bs w = (let w' = WriteHeader 200 w in w'\<lparr>rw_body := rw_body w' @ bs\<rparr>)"

definition io_Copy :: "string \<Rightarrow> ResponseWriter \<Rightarrow> ResponseWriter" where
  "io_Copy bs w = (if bs = [] then w else Write bs w)"

definition log_Printf :: "string \<Rightarrow> ResponseWriter \<Rightarrow> ResponseWriter" where
  "log_Printf line w = w\<lparr>log_lines := log_lines w @ [line]\<rparr>"

text \<open>
  \<open>http.Error\<close>: drops \<open>Content-Length\<close>, sets the content type of a plain text reply,
  writes the status and prints the message as one line (\<open>fmt.Fprintln\<close>).
\<close>

definition http_Error :: "string \<Rightarrow> nat \<Rightarrow> ResponseWriter \<Rightarrow> ResponseWriter" where
  "http_Error msg code w =
     Write (msg @ [CHR 0x0A])
       (WriteHeader code
         (Header_Set ''X-Content-Type-Options'' ''nosniff''
           (Header_Set ''Content-Type'' ''text/plain; charset=utf-8''
             (Header_Del ''Content-Length'' w))))"

text \<open>The status the client receives: 200 unless the handler wrote another one.\<close>

definition resp_status :: "ResponseWriter \<Rightarrow> nat" where
  "resp_status w = (case rw_status w of None \<Rightarrow> 200 | Some c \<Rightarrow> c)"

definition header_values :: "string \<Rightarrow> ResponseWriter \<Rightarrow> string list" where
  "header_values key w = map snd (filter (\<lambda>kv. fst kv = key) (rw_header w))"

text \<open>Two states of the writer that give the client the same response.\<close>

definition same_response :: "ResponseWriter \<Rightarrow> ResponseWriter \<Rightarrow> bool" where
  "same_response w w' \<longleftrightarrow>
     rw_status w = rw_status w' \<and> rw_header w = rw_header w' \<and> rw_body w = rw_body w'"

section \<open>The program\<close>

text \<open>The command line flags, each a pointer as \<open>flag.Bool\<close> and \<open>flag.String\<close> give it.\<close>

record Flags =
  verbose :: bool
  blockIfMeta :: string_ptr
  passthroughMeta :: string_ptr

text \<open>\<open>handleError\<close> is only ever called with an error; \<open>None\<close> is Go's \<open>nil\<close>.\<close>

definition handleError :: "error option \<Rightarrow> ResponseWriter \<Rightarrow> ResponseWriter" where
  "handleError err w =
     (case err of
        None \<Rightarrow> w
      | Some e \<Rightarrow>
          if e = ErrObjectNotExist then http_Error (Error_text e) 404 w
          else http_Error (Error_text e) 500 w)"

definition setStrHeader :: "string \<Rightarrow> string \<Rightarrow> ResponseWriter \<Rightarrow> ResponseWriter" where
  "setStrHeader key v w = (if v \<noteq> [] then Header_Add key v w else w)"

definition setIntHeader :: "string \<Rightarrow> 64 word \<Rightarrow> ResponseWriter \<Rightarrow> ResponseWriter" where
  "setIntHeader key v w = (if 0 <s v then Header_Add key (FormatInt (sint v)) w else w)"

definition setTimeHeader :: "Lib \<Rightarrow> string \<Rightarrow> time \<Rightarrow> ResponseWriter \<Rightarrow> ResponseWriter" where
  "setTimeHeader lib key v w =
     (if \<not> IsZero v then Header_Add key (FormatHTTPTime lib v) w else w)"

text \<open>
  \<open>parseBlockIfMeta\<close> splits \<open>*blockIfMeta\<close>, but formats its error from the pointer
  \<open>blockIfMeta\<close> itself.
\<close>

definition parseBlockIfMeta :: "Flags \<Rightarrow> error + string \<times> string" where
  "parseBlockIfMeta fl =
     (let parts = strings_Split (deref (blockIfMeta fl)) CHR '':'' in
      if length parts \<noteq> 2
      then Inl (OtherError (''unexpected block-if argument: '' @ fmt_v_ptr (blockIfMeta fl)))
      else Inr (parts ! 0, parts ! 1))"

definition isBlocked :: "Flags \<Rightarrow> ObjectAttrs \<Rightarrow> error + bool" where
  "isBlocked fl attr =
     (case parseBlockIfMeta fl of
        Inl err \<Rightarrow> Inl err
      | Inr (key, val) \<Rightarrow> Inr (index_str (Metadata attr) key = val))"

definition parsePassthroughMeta :: "Flags \<Rightarrow> string set" where
  "parsePassthroughMeta fl =
     (let metas = strings_Split (deref (passthroughMeta fl)) CHR '','' in
      fold (\<lambda>meta s. insert meta s) metas {})"

definition writeMetadataHeaders :: "Flags \<Rightarrow> ObjectAttrs \<Rightarrow> ResponseWriter \<Rightarrow> ResponseWriter" where
  "writeMetadataHeaders fl attr w =
     (let metaToPass = parsePassthroughMeta fl;
          prefix = ''X-Goog-Meta-''
      in fold (\<lambda>kv w'. if fst kv \<in> metaToPass
                        then setStrHeader (prefix @ fst kv) (snd kv) w' else w')
           (Metadata attr) w)"

definition clientAcceptsGzip :: "Request \<Rightarrow> bool" where
  "clientAcceptsGzip r = strings_Contains (Header_Get (Header r) ''Accept-Encoding'') ''gzip''"

text \<open>
  The handler. Each \<open>return\<close> of the source is a branch that ends here; the metadata
  headers are written before the \<open>If-Modified-Since\<close> check, and that check compares
  against the zero time when the date did not parse.
\<close>

definition proxy :: "Lib \<Rightarrow> Flags \<Rightarrow> Client \<Rightarrow> Request \<Rightarrow> ResponseWriter \<Rightarrow> ResponseWriter" where
  "proxy lib fl client r w =
     (let bucket = index_var (Vars r) ''bucket'';
          object = index_var (Vars r) ''object'';
          gzipAcceptable = clientAcceptsGzip r
      in case obj_Attrs client bucket object gzipAcceptable of
           Inl err \<Rightarrow> handleError (Some err) w
         | Inr attr \<Rightarrow>
            (case isBlocked fl attr of
               Inl err \<Rightarrow> handleError (Some err) w
             | Inr blocked \<Rightarrow>
                if blocked
                then WriteHeader 404
                       (if verbose fl
                        then log_Printf (''Object '' @ Name attr @ '' is blocked'') w
                        else w)
                else
                  let w1 = writeMetadataHeaders fl attr w;
                      (w2, notModified) =
                        (case Header r ''If-Modified-Since'' of
                           Some (s # ss) \<Rightarrow>
                             let res = ParseTime lib s;
                                 last = (case res of Inl e \<Rightarrow> zero_time | Inr t \<Rightarrow> t);
                                 w' = (case res of
                                         Inl e \<Rightarrow>
                                           if verbose fl
                                           then log_Printf
                                                  (''could not parse If-Modified-Since: '' @ e) w1
                                           else w1
                                       | Inr t \<Rightarrow> w1)
                             in (w', \<not> After (Truncate (Updated attr) Second) last)
                         | _ \<Rightarrow> (w1, False))
                  in if notModified then WriteHeader 304 w2
                     else
                       (case obj_NewReader client bucket object gzipAcceptable of
                          Inl err \<Rightarrow> handleError (Some err) w2
                        | Inr objr \<Rightarrow>
                            io_Copy (content objr)
                              (setIntHeader ''Content-Length'' (Size (Attrs objr))
                                (setStrHeader ''Content-Disposition'' (ContentDisposition attr)
                                  (setStrHeader ''Content-Encoding'' (ContentEncoding (Attrs objr))
                                    (setStrHeader ''Cache-Control'' (CacheControl attr)
                                      (setStrHeader ''Content-Language'' (ContentLanguage attr)
                                        (setStrHeader ''Content-Type'' (ContentType attr)
                                          (setTimeHeader lib ''Last-Modified'' (Updated attr)
                                            w2))))))))))"


section \<open>Sample inputs\<close>

text \<open>
  An object \<open>a.txt\<close> of bucket \<open>b1\<close>, last updated on June 1, 2014 at 12:00:00.5 UTC
  and stored gzip-compressed, a backend that knows this object only, and the two dates
  that the sample \<open>ParseTime\<close> understands.
\<close>

definition ex_attr :: ObjectAttrs where
  "ex_attr =
     \<lparr>Name = ''a.txt'', ContentType = ''text/plain'', ContentLanguage = [],
      CacheControl = ''no-cache'', ContentDisposition = [],
      attr_ContentEncoding = ''gzip'', attr_Size = 25,
      Updated = 63537220800 * Second + 500000000,
      Metadata = [(''Blocked'', ''false''), (''owner'', ''alice''), (''note'', [])]\<rparr>"

definition ex_reader :: Reader where
  "ex_reader = \<lparr>Attrs = \<lparr>Size = 5, ContentEncoding = []\<rparr>, content = ''hello''\<rparr>"

definition ex_client :: "error + ObjectAttrs \<Rightarrow> error + Reader \<Rightarrow> Client" where
  "ex_client a rd =
     \<lparr>obj_Attrs = (\<lambda>b ob gz. if b = ''b1'' \<and> ob = ''a.txt'' then a
                               else Inl ErrObjectNotExist),
      obj_NewReader = (\<lambda>b ob gz. if b = ''b1'' \<and> ob = ''a.txt'' then rd
                                   else Inl ErrObjectNotExist)\<rparr>"

definition ex_lib :: Lib where
  "ex_lib =
     \<lparr>ParseTime = (\<lambda>s. if s = ''Thu, 01 Jan 2015 00:00:00 GMT'' then Inr (63555667200 * Second)
                         else if s = ''Wed, 01 Jan 2014 00:00:00 GMT'' then Inr (63524131200 * Second)
                         else Inl ''parsing time: cannot parse''),
      FormatHTTPTime = (\<lambda>t. if t = zero_time then ''Mon, 01 Jan 0001 00:00:00 GMT''
                              else ''Sun, 01 Jun 2014 12:00:00 GMT'')\<rparr>"

definition ex_flags :: "string \<Rightarrow> string \<Rightarrow> Flags" where
  "ex_flags rule pass =
     \<lparr>verbose = False,
      blockIfMeta = \<lparr>addr = 0xc000012345, deref = rule\<rparr>,
      passthroughMeta = \<lparr>addr = 0xc000012355, deref = pass\<rparr>\<rparr>"

definition ex_request :: "(string \<rightharpoonup> string list) \<Rightarrow> Request" where
  "ex_request h = \<lparr>Header = h, Vars = [''bucket'' \<mapsto> ''b1'', ''object'' \<mapsto> ''a.txt'']\<rparr>"

section \<open>Properties of the handler\<close>

subsection \<open>The passthrough set and the metadata headers\<close>

lemma fold_insert_set: "fold (\<lambda>meta s. insert meta s) xs A = set xs \<union> A"
  by (induction xs arbitrary: A) auto

lemma parsePassthroughMeta_set:
  "parsePassthroughMeta fl = set (strings_Split (deref (passthroughMeta fl)) CHR '','')"
  by (simp add: parsePassthroughMeta_def fold_insert_set)

lemma fold_setStrHeader:
  "fold (\<lambda>kv w'. if fst kv \<in> P then setStrHeader (pre @ fst kv) (snd kv) w' else w') md w =
   w\<lparr>rw_header := rw_header w @
        map (\<lambda>kv. (pre @ fst kv, snd kv)) (filter (\<lambda>kv. fst kv \<in> P \<and> snd kv \<noteq> []) md)\<rparr>"
  by (induction md arbitrary: w) (simp_all add: setStrHeader_def Header_Add_def)

lemma writeMetadataHeaders_eq:
  "writeMetadataHeaders fl attr w =
   w\<lparr>rw_header := rw_header w @
        map (\<lambda>kv. (''X-Goog-Meta-'' @ fst kv, snd kv))
          (filter (\<lambda>kv. fst kv \<in> parsePassthroughMeta fl \<and> snd kv \<noteq> []) (Metadata attr))\<rparr>"
  unfolding writeMetadataHeaders_def Let_def by (rule fold_setStrHeader)

lemma handleError_status:
  "rw_status w = None \<Longrightarrow>
   resp_status (handleError (Some e) w) = (if e = ErrObjectNotExist then 404 else 500)"
  by (simp add: handleError_def http_Error_def Write_def WriteHeader_def Header_Set_def
      Header_Del_def Header_Add_def resp_status_def Let_def)

lemma handleError_body:
  "rw_status w = None \<Longrightarrow>
   rw_body (handleError (Some e) w) = rw_body w @ Error_text e @ [CHR 0x0A]"
  by (simp add: handleError_def http_Error_def Write_def WriteHeader_def Header_Set_def
      Header_Del_def Header_Add_def Let_def)

lemma proxy_attrs_error:
  "obj_Attrs client (index_var (Vars r) ''bucket'') (index_var (Vars r) ''object'')
     (clientAcceptsGzip r) = Inl e \<Longrightarrow>
   proxy lib fl client r w = handleError (Some e) w"
  by (simp add: proxy_def Let_def)

lemma proxy_rule_error:
  "obj_Attrs client (index_var (Vars r) ''bucket'') (index_var (Vars r) ''object'')
     (clientAcceptsGzip r) = Inr attr \<Longrightarrow>
   isBlocked fl attr = Inl e \<Longrightarrow>
   proxy lib fl client r w = handleError (Some e) w"
  by (simp add: proxy_def Let_def)

lemma proxy_blocked:
  "obj_Attrs client (index_var (Vars r) ''bucket'') (index_var (Vars r) ''object'')
     (clientAcceptsGzip r) = Inr attr \<Longrightarrow>
   isBlocked fl attr = Inr True \<Longrightarrow>
   proxy lib fl client r w =
     WriteHeader 404
       (if verbose fl then log_Printf (''Object '' @ Name attr @ '' is blocked'') w else w)"
  by (simp add: proxy_def Let_def)

text \<open>The decision of the conditional GET, as the handler takes it.\<close>

lemma proxy_not_modified:
  "obj_Attrs client (index_var (Vars r) ''bucket'') (index_var (Vars r) ''object'')
     (clientAcceptsGzip r) = Inr attr \<Longrightarrow>
   isBlocked fl attr = Inr False \<Longrightarrow>
   Header r ''If-Modified-Since'' = Some (s # ss) \<Longrightarrow>
   ParseTime lib s = Inr t \<Longrightarrow>
   \<not> After (Truncate (Updated attr) Second) t \<Longrightarrow>
   proxy lib fl client r w = WriteHeader 304 (writeMetadataHeaders fl attr w)"
  by (simp add: proxy_def Let_def)

lemma proxy_modified:
  "obj_Attrs client (index_var (Vars r) ''bucket'') (index_var (Vars r) ''object'')
     (clientAcceptsGzip r) = Inr attr \<Longrightarrow>
   isBlocked fl attr = Inr False \<Longrightarrow>
   Header r ''If-Modified-Since'' = Some (s # ss) \<Longrightarrow>
   ParseTime lib s = Inr t \<Longrightarrow>
   After (Truncate (Updated attr) Second) t \<Longrightarrow>
   obj_NewReader client (index_var (Vars r) ''bucket'') (index_var (Vars r) ''object'')
     (clientAcceptsGzip r) = Inr objr \<Longrightarrow>
   proxy lib fl client r w =
     io_Copy (content objr)
      (setIntHeader ''Content-Length'' (Size (Attrs objr))
        (setStrHeader ''Content-Disposition'' (ContentDisposition attr)
          (setStrHeader ''Content-Encoding'' (ContentEncoding (Attrs objr))
            (setStrHeader ''Cache-Control'' (CacheControl attr)
              (setStrHeader ''Content-Language'' (ContentLanguage attr)
                (setStrHeader ''Content-Type'' (ContentType attr)
                  (setTimeHeader lib ''Last-Modified'' (Updated attr)
                    (writeMetadataHeaders fl attr w))))))))"
  by (simp add: proxy_def Let_def)

lemma served_status:
  "rw_status w = None \<Longrightarrow>
   resp_status (io_Copy bs
      (setIntHeader k7 n
        (setStrHeader k6 v6
          (setStrHeader k5 v5
            (setStrHeader k4 v4
              (setStrHeader k3 v3
                (setStrHeader k2 v2
                  (setTimeHeader lib k1 t w)))))))) = 200"
  by (simp add: io_Copy_def Write_def WriteHeader_def setIntHeader_def setStrHeader_def
      setTimeHeader_def Header_Add_def resp_status_def Let_def)

lemma served_body:
  "rw_body (io_Copy bs
      (setIntHeader k7 n
        (setStrHeader k6 v6
          (setStrHeader k5 v5
            (setStrHeader k4 v4
              (setStrHeader k3 v3
                (setStrHeader k2 v2
                  (setTimeHeader lib k1 t w)))))))) = rw_body w @ bs"
  by (simp add: io_Copy_def Write_def WriteHeader_def setIntHeader_def setStrHeader_def
      setTimeHeader_def Header_Add_def Let_def split: option.splits)

lemma served_header:
  "rw_header (io_Copy bs
      (setIntHeader k7 n
        (setStrHeader k6 v6
          (setStrHeader k5 v5
            (setStrHeader k4 v4
              (setStrHeader k3 v3
                (setStrHeader k2 v2
                  (setTimeHeader lib k1 t w)))))))) =
   rw_header w @
     (if \<not> IsZero t then [(k1, FormatHTTPTime lib t)] else []) @
     (if v2 \<noteq> [] then [(k2, v2)] else []) @
     (if v3 \<noteq> [] then [(k3, v3)] else []) @
     (if v4 \<noteq> [] then [(k4, v4)] else []) @
     (if v5 \<noteq> [] then [(k5, v5)] else []) @
     (if v6 \<noteq> [] then [(k6, v6)] else []) @
     (if 0 <s n then [(k7, FormatInt (sint n))] else [])"
  by (simp add: io_Copy_def Write_def WriteHeader_def setIntHeader_def setStrHeader_def
      setTimeHeader_def Header_Add_def Let_def split: option.splits)


lemma proxy_unblocked:
  assumes "obj_Attrs client (index_var (Vars r) ''bucket'') (index_var (Vars r) ''object'')
     (clientAcceptsGzip r) = Inr attr"
    and "isBlocked fl attr = Inr False"
  shows "\<exists>w2. rw_status w2 = rw_status w \<and> rw_body w2 = rw_body w \<and>
     rw_header w2 = rw_header (writeMetadataHeaders fl attr w) \<and>
     (proxy lib fl client r w = WriteHeader 304 w2 \<or>
      (\<exists>e. obj_NewReader client (index_var (Vars r) ''bucket'') (index_var (Vars r) ''object'')
         (clientAcceptsGzip r) = Inl e \<and> proxy lib fl client r w = handleError (Some e) w2) \<or>
      (\<exists>objr. obj_NewReader client (index_var (Vars r) ''bucket'') (index_var (Vars r) ''object'')
         (clientAcceptsGzip r) = Inr objr \<and>
         proxy lib fl client r w =
          io_Copy (content objr)
           (setIntHeader ''Content-Length'' (Size (Attrs objr))
            (setStrHeader ''Content-Disposition'' (ContentDisposition attr)
             (setStrHeader ''Content-Encoding'' (ContentEncoding (Attrs objr))
              (setStrHeader ''Cache-Control'' (CacheControl attr)
               (setStrHeader ''Content-Language'' (ContentLanguage attr)
                (setStrHeader ''Content-Type'' (ContentType attr)
                 (setTimeHeader lib ''Last-Modified'' (Updated attr) w2)))))))))"
proof -
  define w1 where "w1 = writeMetadataHeaders fl attr w"
  define w2 where "w2 =
    (case Header r ''If-Modified-Since'' of
       Some (s # ss) \<Rightarrow>
         (case ParseTime lib s of
            Inl e \<Rightarrow> if verbose fl
                     then log_Printf (''could not parse If-Modified-Since: '' @ e) w1 else w1
          | Inr t \<Rightarrow> w1)
     | _ \<Rightarrow> w1)"
  have f: "rw_status w2 = rw_status w1" "rw_body w2 = rw_body w1" "rw_header w2 = rw_header w1"
    by (simp_all add: w2_def log_Printf_def split: option.splits list.splits sum.splits)
  have g: "rw_status w1 = rw_status w" "rw_body w1 = rw_body w"
    by (simp_all add: w1_def writeMetadataHeaders_eq)
  have "proxy lib fl client r w = WriteHeader 304 w2 \<or>
      proxy lib fl client r w =
       (case obj_NewReader client (index_var (Vars r) ''bucket'') (index_var (Vars r) ''object'')
         (clientAcceptsGzip r) of
          Inl err \<Rightarrow> handleError (Some err) w2
        | Inr objr \<Rightarrow>
          io_Copy (content objr)
           (setIntHeader ''Content-Length'' (Size (Attrs objr))
            (setStrHeader ''Content-Disposition'' (ContentDisposition attr)
             (setStrHeader ''Content-Encoding'' (ContentEncoding (Attrs objr))
              (setStrHeader ''Cache-Control'' (CacheControl attr)
               (setStrHeader ''Content-Language'' (ContentLanguage attr)
                (setStrHeader ''Content-Type'' (ContentType attr)
                 (setTimeHeader lib ''Last-Modified'' (Updated attr) w2))))))))"
    using assms
    by (simp add: proxy_def Let_def w2_def w1_def split: option.splits list.splits sum.splits)
  then show ?thesis
    using f g by (cases "obj_NewReader client (index_var (Vars r) ''bucket'')
      (index_var (Vars r) ''object'') (clientAcceptsGzip r)") (auto simp: w1_def)
qed


lemma WriteHeader_status:
  "rw_status w = None \<Longrightarrow> resp_status (WriteHeader code w) = code"
  by (simp add: WriteHeader_def resp_status_def)



subsection \<open>Evaluating the handler on the sample inputs\<close>

lemmas eval_defs = proxy_def handleError_def http_Error_def Write_def WriteHeader_def
  Header_Set_def Header_Del_def Header_Add_def io_Copy_def log_Printf_def setStrHeader_def
  setIntHeader_def setTimeHeader_def isBlocked_def parseBlockIfMeta_def parsePassthroughMeta_def
  writeMetadataHeaders_def clientAcceptsGzip_def Header_Get_def index_var_def index_str_def
  new_writer_def resp_status_def header_values_def fmt_v_ptr_def FormatInt_def digit_char_def
  IsZero_def zero_time_def Second_def Truncate_def After_def Let_def digits.simps word_sless_alt
  ex_attr_def ex_reader_def ex_client_def ex_lib_def ex_flags_def ex_request_def

section \<open>The conditional GET and the headers of a 304 response\<close>






section \<open>The block rule\<close>

text \<open>
  Claim C2 at the rule \<open>Blocked\<close>, which has no colon. The request ends with status 500,
  as the claim says, but the message is built from the flag pointer itself and not from
  the string it points to: the body shows the address of the flag variable and the
  configured value \<open>Blocked\<close> does not occur in it.
\<close>

theorem C2_message_omits_value:
  "deref (blockIfMeta (ex_flags ''Blocked'' [])) = ''Blocked'' \<and>
   length (strings_Split ''Blocked'' CHR '':'') \<noteq> 2 \<and>
   resp_status (proxy ex_lib (ex_flags ''Blocked'' [])
      (ex_client (Inr ex_attr) (Inr ex_reader)) (ex_request Map.empty) new_writer) = 500 \<and>
   rw_body (proxy ex_lib (ex_flags ''Blocked'' [])
      (ex_client (Inr ex_attr) (Inr ex_reader)) (ex_request Map.empty) new_writer) =
     ''unexpected block-if argument: 0xc000012345'' @ [CHR 0x0A] \<and>
   \<not> strings_Contains (rw_body (proxy ex_lib (ex_flags ''Blocked'' [])
      (ex_client (Inr ex_attr) (Inr ex_reader)) (ex_request Map.empty) new_writer)) ''Blocked''"
  by (simp add: eval_defs)

text \<open>
  Claim C3. Under a rule that parses to \<open>(key, val)\<close>: an object whose metadata maps
  \<open>key\<close> to exactly \<open>val\<close> is answered by 404 with an empty body and no header,
  whatever the read stream would give; and for an object whose metadata lacks \<open>key\<close> the
  lookup gives the empty string, so that a rule with a non-empty value does not block it.
\<close>

theorem C3_block_rule:
  assumes "parseBlockIfMeta fl = Inr (key, val)"
  shows "(obj_Attrs client (index_var (Vars r) ''bucket'') (index_var (Vars r) ''object'')
             (clientAcceptsGzip r) = Inr attr \<and>
          map_of (Metadata attr) key = Some val \<longrightarrow>
            resp_status (proxy lib fl client r new_writer) = 404 \<and>
            rw_body (proxy lib fl client r new_writer) = [] \<and>
            rw_header (proxy lib fl client r new_writer) = []) \<and>
         (map_of (Metadata attr) key = None \<longrightarrow>
            index_str (Metadata attr) key = [] \<and>
            (val \<noteq> [] \<longrightarrow> isBlocked fl attr = Inr False))"
proof -
  have "resp_status (proxy lib fl client r new_writer) = 404 \<and>
        rw_body (proxy lib fl client r new_writer) = [] \<and>
        rw_header (proxy lib fl client r new_writer) = []"
    if A: "obj_Attrs client (index_var (Vars r) ''bucket'') (index_var (Vars r) ''object'')
             (clientAcceptsGzip r) = Inr attr"
      and M: "map_of (Metadata attr) key = Some val"
  proof -
    have "isBlocked fl attr = Inr True"
      using assms M by (simp add: isBlocked_def index_str_def)
    from proxy_blocked [OF A this] show ?thesis
      by (simp add: WriteHeader_def log_Printf_def new_writer_def resp_status_def)
  qed
  moreover have "index_str (Metadata attr) key = [] \<and>
      (val \<noteq> [] \<longrightarrow> isBlocked fl attr = Inr False)"
    if "map_of (Metadata attr) key = None"
    using assms that by (auto simp: isBlocked_def index_str_def)
  ultimately show ?thesis by blast
qed

theorem C3_block_rule_witness:
  "parseBlockIfMeta (ex_flags ''Blocked:true'' []) = Inr (''Blocked'', ''true'') \<and>
   map_of (Metadata (ex_attr\<lparr>Metadata := [(''Blocked'', ''true'')]\<rparr>)) ''Blocked'' = Some ''true'' \<and>
   resp_status (proxy ex_lib (ex_flags ''Blocked:true'' [])
      (ex_client (Inr (ex_attr\<lparr>Metadata := [(''Blocked'', ''true'')]\<rparr>)) (Inr ex_reader))
      (ex_request Map.empty) new_writer) = 404 \<and>
   rw_body (proxy ex_lib (ex_flags ''Blocked:true'' [])
      (ex_client (Inr (ex_attr\<lparr>Metadata := [(''Blocked'', ''true'')]\<rparr>)) (Inr ex_reader))
      (ex_request Map.empty) new_writer) = [] \<and>
   map_of (Metadata (ex_attr\<lparr>Metadata := [(''owner'', ''alice'')]\<rparr>)) ''Blocked'' = None \<and>
   isBlocked (ex_flags ''Blocked:true'' []) (ex_attr\<lparr>Metadata := [(''owner'', ''alice'')]\<rparr>)
     = Inr False"
proof -
  let ?fl = "ex_flags ''Blocked:true'' []"
  let ?a = "ex_attr\<lparr>Metadata := [(''Blocked'', ''true'')]\<rparr>"
  let ?a' = "ex_attr\<lparr>Metadata := [(''owner'', ''alice'')]\<rparr>"
  let ?cl = "ex_client (Inr ?a) (Inr ex_reader)"
  let ?r = "ex_request Map.empty"
  have 1: "parseBlockIfMeta ?fl = Inr (''Blocked'', ''true'')"
    by (simp add: parseBlockIfMeta_def ex_flags_def)
  have 2: "obj_Attrs ?cl (index_var (Vars ?r) ''bucket'') (index_var (Vars ?r) ''object'')
             (clientAcceptsGzip ?r) = Inr ?a"
    by (simp add: ex_client_def ex_request_def index_var_def)
  have 3: "map_of (Metadata ?a) ''Blocked'' = Some ''true''"
    by simp
  have 4: "map_of (Metadata ?a') ''Blocked'' = None"
    by simp
  show ?thesis
    using C3_block_rule [OF 1, of ?cl ?r ?a ex_lib] C3_block_rule [OF 1, of ?cl ?r ?a' ex_lib]
      1 2 3 4
    by simp
qed

section \<open>The conditional GET\<close>

text \<open>
  Claim C4 at an object whose update time is the zero time. When \<open>ParseTime\<close> fails
  the handler still compares, against the zero time that comes with the error: the
  request with the unparsable date is answered by 304 with an empty body, while the same
  request without the header is answered by 200 with the content.
\<close>

theorem C4_unparsable_date_gives_304:
  "ParseTime ex_lib ''yesterday'' = Inl ''parsing time: cannot parse'' \<and>
   resp_status (proxy ex_lib (ex_flags ''Blocked:true'' [])
      (ex_client (Inr (ex_attr\<lparr>Updated := zero_time\<rparr>)) (Inr ex_reader))
      (ex_request [''If-Modified-Since'' \<mapsto> [''yesterday'']]) new_writer) = 304 \<and>
   rw_body (proxy ex_lib (ex_flags ''Blocked:true'' [])
      (ex_client (Inr (ex_attr\<lparr>Updated := zero_time\<rparr>)) (Inr ex_reader))
      (ex_request [''If-Modified-Since'' \<mapsto> [''yesterday'']]) new_writer) = [] \<and>
   resp_status (proxy ex_lib (ex_flags ''Blocked:true'' [])
      (ex_client (Inr (ex_attr\<lparr>Updated := zero_time\<rparr>)) (Inr ex_reader))
      (ex_request Map.empty) new_writer) = 200 \<and>
   rw_body (proxy ex_lib (ex_flags ''Blocked:true'' [])
      (ex_client (Inr (ex_attr\<lparr>Updated := zero_time\<rparr>)) (Inr ex_reader))
      (ex_request Map.empty) new_writer) = ''hello''"
  by (simp add: eval_defs)

lemma same_response_log: "same_response (log_Printf l w) w"
  by (simp add: same_response_def log_Printf_def)

lemma same_response_handleError:
  "same_response w w' \<Longrightarrow> same_response (handleError err w) (handleError err w')"
  by (simp add: same_response_def handleError_def http_Error_def Write_def WriteHeader_def
      Header_Set_def Header_Del_def Header_Add_def Let_def split: option.splits)

lemma served_rw_status:
  "rw_status (io_Copy bs
      (setIntHeader k7 n
        (setStrHeader k6 v6
          (setStrHeader k5 v5
            (setStrHeader k4 v4
              (setStrHeader k3 v3
                (setStrHeader k2 v2
                  (setTimeHeader lib k1 t w)))))))) =
   (if bs = [] then rw_status w
    else (case rw_status w of None \<Rightarrow> Some 200 | Some c \<Rightarrow> Some c))"
  by (simp add: io_Copy_def Write_def WriteHeader_def setIntHeader_def setStrHeader_def
      setTimeHeader_def Header_Add_def Let_def split: option.splits)

lemma same_response_served:
  assumes "same_response w w'"
  shows "same_response
     (io_Copy bs (setIntHeader k7 n (setStrHeader k6 v6 (setStrHeader k5 v5
        (setStrHeader k4 v4 (setStrHeader k3 v3 (setStrHeader k2 v2
          (setTimeHeader lib k1 t w))))))))
     (io_Copy bs (setIntHeader k7 n (setStrHeader k6 v6 (setStrHeader k5 v5
        (setStrHeader k4 v4 (setStrHeader k3 v3 (setStrHeader k2 v2
          (setTimeHeader lib k1 t w'))))))))"
  using assms unfolding same_response_def served_rw_status served_header served_body
  by simp

text \<open>
  Apart from the first second after the zero time, a date that does not parse is ignored:
  the response is the one that the request without the header gets.
\<close>

lemma proxy_unparsable_date:
  assumes A: "obj_Attrs client (index_var (Vars r) ''bucket'') (index_var (Vars r) ''object'')
             (clientAcceptsGzip r) = Inr attr"
    and B: "isBlocked fl attr = Inr False"
    and H: "Header r ''If-Modified-Since'' = Some (s # ss)"
    and P: "ParseTime lib s = Inl e"
    and U: "After (Truncate (Updated attr) Second) zero_time"
  shows "same_response (proxy lib fl client r w)
     (proxy lib fl client (r\<lparr>Header := (Header r)(''If-Modified-Since'' := None)\<rparr>) w)"
proof -
  let ?r' = "r\<lparr>Header := (Header r)(''If-Modified-Since'' := None)\<rparr>"
  let ?w1 = "writeMetadataHeaders fl attr w"
  let ?w2 = "if verbose fl
             then log_Printf (''could not parse If-Modified-Since: '' @ e) ?w1 else ?w1"
  let ?new = "obj_NewReader client (index_var (Vars r) ''bucket'') (index_var (Vars r) ''object'')
             (clientAcceptsGzip r)"
  have g: "clientAcceptsGzip ?r' = clientAcceptsGzip r"
    by (simp add: clientAcceptsGzip_def Header_Get_def)
  have w: "same_response ?w2 ?w1"
    by (simp add: same_response_log) (simp add: same_response_def)
  show ?thesis
  proof (cases ?new)
    case (Inl err)
    have "proxy lib fl client r w = handleError (Some err) ?w2"
      using A B H P U Inl by (simp add: proxy_def Let_def)
    moreover have "proxy lib fl client ?r' w = handleError (Some err) ?w1"
      using A B g Inl by (simp add: proxy_def Let_def)
    ultimately show ?thesis
      using same_response_handleError [OF w] by simp
  next
    case (Inr objr)
    have "proxy lib fl client r w =
       io_Copy (content objr)
        (setIntHeader ''Content-Length'' (Size (Attrs objr))
         (setStrHeader ''Content-Disposition'' (ContentDisposition attr)
          (setStrHeader ''Content-Encoding'' (ContentEncoding (Attrs objr))
           (setStrHeader ''Cache-Control'' (CacheControl attr)
            (setStrHeader ''Content-Language'' (ContentLanguage attr)
             (setStrHeader ''Content-Type'' (ContentType attr)
              (setTimeHeader lib ''Last-Modified'' (Updated attr) ?w2)))))))"
      using A B H P U Inr by (simp add: proxy_def Let_def)
    moreover have "proxy lib fl client ?r' w =
       io_Copy (content objr)
        (setIntHeader ''Content-Length'' (Size (Attrs objr))
         (setStrHeader ''Content-Disposition'' (ContentDisposition attr)
          (setStrHeader ''Content-Encoding'' (ContentEncoding (Attrs objr))
           (setStrHeader ''Cache-Control'' (CacheControl attr)
            (setStrHeader ''Content-Language'' (ContentLanguage attr)
             (setStrHeader ''Content-Type'' (ContentType attr)
              (setTimeHeader lib ''Last-Modified'' (Updated attr) ?w1)))))))"
      using A B g Inr by (simp add: proxy_def Let_def)
    ultimately show ?thesis
      using same_response_served [OF w] by simp
  qed
qed


text \<open>
  Claim C5. For a request that reaches the conditional check (attributes fetched, object
  not blocked) and whose first \<open>If-Modified-Since\<close> value parses to \<open>t\<close>: when the
  update time truncated to whole seconds is at or before \<open>t\<close> the response is 304 with
  an empty body; when it is strictly after \<open>t\<close> and the read stream opens, the response
  is 200 and the body is the content of the stream.
\<close>

theorem C5_conditional_decision:
  assumes "obj_Attrs client (index_var (Vars r) ''bucket'') (index_var (Vars r) ''object'')
             (clientAcceptsGzip r) = Inr attr"
    and "isBlocked fl attr = Inr False"
    and "Header r ''If-Modified-Since'' = Some (s # ss)"
    and "ParseTime lib s = Inr t"
  shows "(Truncate (Updated attr) Second \<le> t \<longrightarrow>
            resp_status (proxy lib fl client r new_writer) = 304 \<and>
            rw_body (proxy lib fl client r new_writer) = []) \<and>
         (t < Truncate (Updated attr) Second \<longrightarrow>
            (\<forall>objr. obj_NewReader client (index_var (Vars r) ''bucket'')
                      (index_var (Vars r) ''object'') (clientAcceptsGzip r) = Inr objr \<longrightarrow>
               resp_status (proxy lib fl client r new_writer) = 200 \<and>
               rw_body (proxy lib fl client r new_writer) = content objr))"
proof (intro conjI impI allI)
  assume "Truncate (Updated attr) Second \<le> t"
  then have n: "\<not> After (Truncate (Updated attr) Second) t"
    by (simp add: After_def)
  have R: "proxy lib fl client r new_writer =
      WriteHeader 304 (writeMetadataHeaders fl attr new_writer)"
    using assms n by (rule proxy_not_modified)
  show "resp_status (proxy lib fl client r new_writer) = 304"
    unfolding R by (simp add: writeMetadataHeaders_eq WriteHeader_def new_writer_def resp_status_def)
  show "rw_body (proxy lib fl client r new_writer) = []"
    unfolding R by (simp add: writeMetadataHeaders_eq WriteHeader_def new_writer_def)
next
  fix objr
  assume "t < Truncate (Updated attr) Second"
    and N: "obj_NewReader client (index_var (Vars r) ''bucket'')
              (index_var (Vars r) ''object'') (clientAcceptsGzip r) = Inr objr"
  then have a: "After (Truncate (Updated attr) Second) t"
    by (simp add: After_def)
  note R = proxy_modified [OF assms a N, of new_writer]
  have st: "rw_status (writeMetadataHeaders fl attr new_writer) = None"
    and bd: "rw_body (writeMetadataHeaders fl attr new_writer) = []"
    by (simp_all add: writeMetadataHeaders_eq new_writer_def)
  show "resp_status (proxy lib fl client r new_writer) = 200"
    unfolding R by (rule served_status [OF st])
  show "rw_body (proxy lib fl client r new_writer) = content objr"
    unfolding R served_body by (simp add: bd)
qed

theorem C5_conditional_decision_witness:
  "resp_status (proxy ex_lib (ex_flags ''Blocked:true'' [])
      (ex_client (Inr ex_attr) (Inr ex_reader))
      (ex_request [''If-Modified-Since'' \<mapsto> [''Thu, 01 Jan 2015 00:00:00 GMT'']])
      new_writer) = 304 \<and>
   rw_body (proxy ex_lib (ex_flags ''Blocked:true'' [])
      (ex_client (Inr ex_attr) (Inr ex_reader))
      (ex_request [''If-Modified-Since'' \<mapsto> [''Thu, 01 Jan 2015 00:00:00 GMT'']])
      new_writer) = [] \<and>
   resp_status (proxy ex_lib (ex_flags ''Blocked:true'' [])
      (ex_client (Inr ex_attr) (Inr ex_reader))
      (ex_request [''If-Modified-Since'' \<mapsto> [''Wed, 01 Jan 2014 00:00:00 GMT'']])
      new_writer) = 200 \<and>
   rw_body (proxy ex_lib (ex_flags ''Blocked:true'' [])
      (ex_client (Inr ex_attr) (Inr ex_reader))
      (ex_request [''If-Modified-Since'' \<mapsto> [''Wed, 01 Jan 2014 00:00:00 GMT'']])
      new_writer) = ''hello''"
proof -
  let ?fl = "ex_flags ''Blocked:true'' []"
  let ?cl = "ex_client (Inr ex_attr) (Inr ex_reader)"
  let ?r = "ex_request [''If-Modified-Since'' \<mapsto> [''Thu, 01 Jan 2015 00:00:00 GMT'']]"
  let ?r' = "ex_request [''If-Modified-Since'' \<mapsto> [''Wed, 01 Jan 2014 00:00:00 GMT'']]"
  have 1: "obj_Attrs ?cl (index_var (Vars ?r) ''bucket'') (index_var (Vars ?r) ''object'')
             (clientAcceptsGzip ?r) = Inr ex_attr"
    and p1: "obj_Attrs ?cl (index_var (Vars ?r') ''bucket'') (index_var (Vars ?r') ''object'')
             (clientAcceptsGzip ?r') = Inr ex_attr"
    by (simp_all add: ex_client_def ex_request_def index_var_def)
  have 2: "isBlocked ?fl ex_attr = Inr False"
    by (simp add: isBlocked_def parseBlockIfMeta_def ex_flags_def ex_attr_def index_str_def)
  have 3: "Header ?r ''If-Modified-Since'' = Some (''Thu, 01 Jan 2015 00:00:00 GMT'' # [])"
    and p3: "Header ?r' ''If-Modified-Since'' = Some (''Wed, 01 Jan 2014 00:00:00 GMT'' # [])"
    by (simp_all add: ex_request_def)
  have 4: "ParseTime ex_lib ''Thu, 01 Jan 2015 00:00:00 GMT'' = Inr (63555667200 * Second)"
    and p4: "ParseTime ex_lib ''Wed, 01 Jan 2014 00:00:00 GMT'' = Inr (63524131200 * Second)"
    by (simp_all add: ex_lib_def)
  have 5: "Truncate (Updated ex_attr) Second \<le> 63555667200 * Second"
    and p5: "63524131200 * Second < Truncate (Updated ex_attr) Second"
    by (simp_all add: Truncate_def Second_def ex_attr_def)
  have 6: "obj_NewReader ?cl (index_var (Vars ?r') ''bucket'') (index_var (Vars ?r') ''object'')
             (clientAcceptsGzip ?r') = Inr ex_reader"
    by (simp add: ex_client_def ex_request_def index_var_def)
  have 7: "content ex_reader = ''hello''"
    by (simp add: ex_reader_def)
  show ?thesis
    using C5_conditional_decision [OF 1 2 3 4] C5_conditional_decision [OF p1 2 p3 p4] 5 p5 6 7
    by simp
qed

section \<open>Errors of the backend\<close>

text \<open>
  Claim C6. An error \<open>e\<close> of the attribute fetch, or of opening the read stream when the
  request gets that far, is answered by 404 when \<open>e\<close> is the distinguished
  \<open>ErrObjectNotExist\<close> and by 500 otherwise; the body is the text of \<open>e\<close>, unchanged,
  as \<open>http.Error\<close> prints it, that is as one line ended by a line feed.
\<close>

theorem C6_error_mapping:
  "(obj_Attrs client (index_var (Vars r) ''bucket'') (index_var (Vars r) ''object'')
      (clientAcceptsGzip r) = Inl e \<or>
    obj_Attrs client (index_var (Vars r) ''bucket'') (index_var (Vars r) ''object'')
      (clientAcceptsGzip r) = Inr attr \<and>
    isBlocked fl attr = Inr False \<and>
    resp_status (proxy lib fl client r new_writer) \<noteq> 304 \<and>
    obj_NewReader client (index_var (Vars r) ''bucket'') (index_var (Vars r) ''object'')
      (clientAcceptsGzip r) = Inl e) \<longrightarrow>
   (e = ErrObjectNotExist \<longrightarrow> resp_status (proxy lib fl client r new_writer) = 404) \<and>
   (e \<noteq> ErrObjectNotExist \<longrightarrow> resp_status (proxy lib fl client r new_writer) = 500) \<and>
   rw_body (proxy lib fl client r new_writer) = Error_text e @ [CHR 0x0A]"
proof (intro impI, elim disjE conjE)
  let ?R = "proxy lib fl client r new_writer"
  have st0: "rw_status new_writer = None" and bd0: "rw_body new_writer = []"
    by (simp_all add: new_writer_def)
  assume "obj_Attrs client (index_var (Vars r) ''bucket'') (index_var (Vars r) ''object'')
      (clientAcceptsGzip r) = Inl e"
  then have "?R = handleError (Some e) new_writer"
    by (rule proxy_attrs_error)
  then show "(e = ErrObjectNotExist \<longrightarrow> resp_status ?R = 404) \<and>
     (e \<noteq> ErrObjectNotExist \<longrightarrow> resp_status ?R = 500) \<and> rw_body ?R = Error_text e @ [CHR 0x0A]"
    by (simp add: handleError_status [OF st0] handleError_body [OF st0] bd0)
next
  let ?R = "proxy lib fl client r new_writer"
  have st0: "rw_status new_writer = None" and bd0: "rw_body new_writer = []"
    by (simp_all add: new_writer_def)
  assume A: "obj_Attrs client (index_var (Vars r) ''bucket'') (index_var (Vars r) ''object'')
      (clientAcceptsGzip r) = Inr attr"
    and B: "isBlocked fl attr = Inr False"
    and S: "resp_status ?R \<noteq> 304"
    and N: "obj_NewReader client (index_var (Vars r) ''bucket'') (index_var (Vars r) ''object'')
      (clientAcceptsGzip r) = Inl e"
  from proxy_unblocked [OF A B, where w = new_writer and lib = lib]
  obtain w2 where w2: "rw_status w2 = None" "rw_body w2 = []"
    and cases: "?R = WriteHeader 304 w2 \<or> ?R = handleError (Some e) w2"
    unfolding st0 bd0 N by auto
  from cases S WriteHeader_status [OF w2(1), of 304] have "?R = handleError (Some e) w2"
    by auto
  then show "(e = ErrObjectNotExist \<longrightarrow> resp_status ?R = 404) \<and>
     (e \<noteq> ErrObjectNotExist \<longrightarrow> resp_status ?R = 500) \<and> rw_body ?R = Error_text e @ [CHR 0x0A]"
    by (simp add: handleError_status [OF w2(1)] handleError_body [OF w2(1)] w2(2))
qed

theorem C6_error_mapping_witness:
  "resp_status (proxy ex_lib (ex_flags ''Blocked:true'' [])
      (ex_client (Inl ErrObjectNotExist) (Inr ex_reader)) (ex_request Map.empty) new_writer) = 404 \<and>
   rw_body (proxy ex_lib (ex_flags ''Blocked:true'' [])
      (ex_client (Inl ErrObjectNotExist) (Inr ex_reader)) (ex_request Map.empty) new_writer) =
     ''storage: object doesn'' @ [CHR 0x27] @ ''t exist'' @ [CHR 0x0A] \<and>
   resp_status (proxy ex_lib (ex_flags ''Blocked:true'' [])
      (ex_client (Inr ex_attr) (Inl (OtherError ''googleapi: Error 403: Forbidden'')))
      (ex_request Map.empty) new_writer) = 500 \<and>
   rw_body (proxy ex_lib (ex_flags ''Blocked:true'' [])
      (ex_client (Inr ex_attr) (Inl (OtherError ''googleapi: Error 403: Forbidden'')))
      (ex_request Map.empty) new_writer) = ''googleapi: Error 403: Forbidden'' @ [CHR 0x0A]"
proof -
  let ?fl = "ex_flags ''Blocked:true'' []"
  let ?cl = "ex_client (Inl ErrObjectNotExist) (Inr ex_reader)"
  let ?cl' = "ex_client (Inr ex_attr) (Inl (OtherError ''googleapi: Error 403: Forbidden''))"
  let ?r = "ex_request Map.empty"
  have 1: "obj_Attrs ?cl (index_var (Vars ?r) ''bucket'') (index_var (Vars ?r) ''object'')
             (clientAcceptsGzip ?r) = Inl ErrObjectNotExist"
    by (simp add: ex_client_def ex_request_def index_var_def)
  have 2: "obj_Attrs ?cl' (index_var (Vars ?r) ''bucket'') (index_var (Vars ?r) ''object'')
             (clientAcceptsGzip ?r) = Inr ex_attr"
    by (simp add: ex_client_def ex_request_def index_var_def)
  have 3: "isBlocked ?fl ex_attr = Inr False"
    by (simp add: isBlocked_def parseBlockIfMeta_def ex_flags_def ex_attr_def index_str_def)
  have 4: "resp_status (proxy ex_lib ?fl ?cl' ?r new_writer) \<noteq> 304"
    by (simp add: eval_defs)
  have 5: "obj_NewReader ?cl' (index_var (Vars ?r) ''bucket'') (index_var (Vars ?r) ''object'')
             (clientAcceptsGzip ?r) = Inl (OtherError ''googleapi: Error 403: Forbidden'')"
    by (simp add: ex_client_def ex_request_def index_var_def)
  show ?thesis
    using C6_error_mapping [of ?cl ?r ErrObjectNotExist ex_attr ?fl ex_lib]
      C6_error_mapping [of ?cl' ?r "OtherError ''googleapi: Error 403: Forbidden''" ex_attr ?fl ex_lib]
      1 2 3 4 5
    by simp
qed


section \<open>The headers of a 200 response\<close>












section \<open>The default configuration\<close>

text \<open>
  Claim C9. The empty passthrough string parses to the set whose only member is the empty
  string, so the metadata key that is the empty string counts as whitelisted: its value,
  when not empty, is written under the header name \<open>X-Goog-Meta-\<close>.
\<close>

theorem C9_empty_passthrough:
  assumes "deref (passthroughMeta fl) = []"
  shows "parsePassthroughMeta fl = {[]} \<and>
     (\<forall>v w. ([], v) \<in> set (Metadata attr) \<and> v \<noteq> [] \<longrightarrow>
        (''X-Goog-Meta-'', v) \<in> set (rw_header (writeMetadataHeaders fl attr w)))"
proof -
  have P: "parsePassthroughMeta fl = {[]}"
    by (simp add: parsePassthroughMeta_set assms)
  have "(''X-Goog-Meta-'', v) \<in> set (rw_header (writeMetadataHeaders fl attr w))"
    if "([], v) \<in> set (Metadata attr)" "v \<noteq> []" for v w
  proof -
    have "([], v) \<in> set (filter (\<lambda>kv. fst kv \<in> parsePassthroughMeta fl \<and> snd kv \<noteq> [])
        (Metadata attr))"
      using that P by simp
    then have "(\<lambda>kv. (''X-Goog-Meta-'' @ fst kv, snd kv)) ([], v) \<in>
        (\<lambda>kv. (''X-Goog-Meta-'' @ fst kv, snd kv)) `
          set (filter (\<lambda>kv. fst kv \<in> parsePassthroughMeta fl \<and> snd kv \<noteq> []) (Metadata attr))"
      by (rule imageI)
    then show ?thesis
      by (simp add: writeMetadataHeaders_eq)
  qed
  with P show ?thesis by blast
qed

theorem C9_empty_passthrough_witness:
  "deref (passthroughMeta (ex_flags ''Blocked:true'' [])) = [] \<and>
   parsePassthroughMeta (ex_flags ''Blocked:true'' []) = {[]} \<and>
   (''X-Goog-Meta-'', ''secret'') \<in> set (rw_header
      (writeMetadataHeaders (ex_flags ''Blocked:true'' [])
         (ex_attr\<lparr>Metadata := [([], ''secret'')]\<rparr>) new_writer))"
proof -
  have 1: "deref (passthroughMeta (ex_flags ''Blocked:true'' [])) = []"
    by (simp add: ex_flags_def)
  have 2: "([], ''secret'') \<in> set (Metadata (ex_attr\<lparr>Metadata := [([], ''secret'')]\<rparr>))"
    by simp
  show ?thesis
    using C9_empty_passthrough [OF 1, of "ex_attr\<lparr>Metadata := [([], ''secret'')]\<rparr>"] 1 2
    by simp
qed

text \<open>
  Claim C10. The empty block rule splits into one part, not two, so parsing it fails;
  every request whose attributes were fetched then ends with status 500 and the parse
  error as body, and no content is served.
\<close>

theorem C10_no_rule_configured:
  assumes "deref (blockIfMeta fl) = []"
  shows "length (strings_Split (deref (blockIfMeta fl)) CHR '':'') = 1 \<and>
     (\<exists>e. parseBlockIfMeta fl = Inl e) \<and>
     (\<forall>attr. obj_Attrs client (index_var (Vars r) ''bucket'') (index_var (Vars r) ''object'')
               (clientAcceptsGzip r) = Inr attr \<longrightarrow>
        resp_status (proxy lib fl client r new_writer) = 500 \<and>
        rw_body (proxy lib fl client r new_writer) =
          ''unexpected block-if argument: '' @ fmt_v_ptr (blockIfMeta fl) @ [CHR 0x0A])"
proof -
  let ?e = "OtherError (''unexpected block-if argument: '' @ fmt_v_ptr (blockIfMeta fl))"
  have P: "parseBlockIfMeta fl = Inl ?e"
    by (simp add: parseBlockIfMeta_def assms)
  have st0: "rw_status new_writer = None" and bd0: "rw_body new_writer = []"
    by (simp_all add: new_writer_def)
  have "resp_status (proxy lib fl client r new_writer) = 500 \<and>
        rw_body (proxy lib fl client r new_writer) =
          ''unexpected block-if argument: '' @ fmt_v_ptr (blockIfMeta fl) @ [CHR 0x0A]"
    if A: "obj_Attrs client (index_var (Vars r) ''bucket'') (index_var (Vars r) ''object'')
               (clientAcceptsGzip r) = Inr attr" for attr
  proof -
    have "isBlocked fl attr = Inl ?e"
      by (simp add: isBlocked_def P)
    from proxy_rule_error [OF A this, of lib new_writer] show ?thesis
      by (simp add: handleError_status [OF st0] handleError_body [OF st0] bd0)
  qed
  moreover have "length (strings_Split (deref (blockIfMeta fl)) CHR '':'') = 1"
    by (simp add: assms)
  ultimately show ?thesis using P by blast
qed

theorem C10_no_rule_configured_witness:
  "deref (blockIfMeta (ex_flags [] [])) = [] \<and>
   resp_status (proxy ex_lib (ex_flags [] [])
      (ex_client (Inr ex_attr) (Inr ex_reader)) (ex_request Map.empty) new_writer) = 500 \<and>
   rw_body (proxy ex_lib (ex_flags [] [])
      (ex_client (Inr ex_attr) (Inr ex_reader)) (ex_request Map.empty) new_writer) =
     ''unexpected block-if argument: 0xc000012345'' @ [CHR 0x0A]"
proof -
  let ?cl = "ex_client (Inr ex_attr) (Inr ex_reader)"
  let ?r = "ex_request Map.empty"
  have 1: "deref (blockIfMeta (ex_flags [] [])) = []"
    by (simp add: ex_flags_def)
  have 2: "obj_Attrs ?cl (index_var (Vars ?r) ''bucket'') (index_var (Vars ?r) ''object'')
             (clientAcceptsGzip ?r) = Inr ex_attr"
    by (simp add: ex_client_def ex_request_def index_var_def)
  have 3: "fmt_v_ptr (blockIfMeta (ex_flags [] [])) = ''0xc000012345''"
    by (simp add: fmt_v_ptr_def ex_flags_def digits.simps digit_char_def)
  show ?thesis
    using C10_no_rule_configured [OF 1, of ?cl ?r ex_lib] 1 2 3 by simp
qed


end
